theory Spec2Isabelle
  imports Complex_Main "HOL-Library.Sublist"
begin

section \<open>JavaScript values used by the constructor's validation\<close>

text \<open>
  A JavaScript number is a binary64 float: not-a-number, an infinity, or a finite value,
  and every finite float is a rational. Only comparisons are made on the options, so a
  finite number is kept as the rational it denotes.
\<close>

datatype jsnum = NaN | PosInf | NegInf | Fin rat

text \<open>\<open>a > b\<close> on numbers: false as soon as one side is NaN.\<close>

fun num_gt :: "jsnum \<Rightarrow> jsnum \<Rightarrow> bool" where
  "num_gt NaN b = False"
| "num_gt a NaN = False"
| "num_gt NegInf b = False"
| "num_gt PosInf PosInf = False"
| "num_gt PosInf b = True"
| "num_gt (Fin x) PosInf = False"
| "num_gt (Fin x) NegInf = True"
| "num_gt (Fin x) (Fin y) = (y < x)"

text \<open>
  A file-name generator is a JavaScript function of no argument. It may read the clock and
  keep a counter, so it is a function of the number of calls made before and of the
  current time in milliseconds.
\<close>

type_synonym namefn = "nat \<Rightarrow> int \<Rightarrow> string"

datatype jsval =
    JUndefined
  | JNull
  | JBool bool
  | JNum jsnum
  | JStr string
  | JFun namefn
  | JObject

fun typeof :: "jsval \<Rightarrow> string" where
  "typeof JUndefined = ''undefined''"
| "typeof JNull = ''object''"
| "typeof (JBool b) = ''boolean''"
| "typeof (JNum n) = ''number''"
| "typeof (JStr s) = ''string''"
| "typeof (JFun f) = ''function''"
| "typeof JObject = ''object''"

text \<open>
  \<open>v > 0\<close>. The source evaluates it only behind \<open>typeof v !== 'number' ||\<close>, that is on
  numbers; the other cases are never reached.
\<close>

fun gt0 :: "jsval \<Rightarrow> bool" where
  "gt0 (JNum n) = num_gt n (Fin 0)"
| "gt0 v = False"

fun the_str :: "jsval \<Rightarrow> string" where
  "the_str (JStr s) = s"
| "the_str v = []"

fun the_num :: "jsval \<Rightarrow> jsnum" where
  "the_num (JNum n) = n"
| "the_num v = NaN"

text \<open>\<open>s.indexOf(pat)\<close>: the first position where \<open>pat\<close> occurs in \<open>s\<close>, or \<open>-1\<close>.\<close>

fun indexOf_from :: "nat \<Rightarrow> string \<Rightarrow> string \<Rightarrow> int" where
  "indexOf_from i [] pat = (if pat = [] then int i else - 1)"
| "indexOf_from i (c # cs) pat =
     (if take (length pat) (c # cs) = pat then int i else indexOf_from (Suc i) cs pat)"

definition indexOf :: "string \<Rightarrow> string \<Rightarrow> int" where
  "indexOf s pat = indexOf_from 0 s pat"






section \<open>The default file name\<close>

text \<open>
  The default generator is \<open>() => moment().format()\<close>. The moment library is not part of
  the repository; its documented default format is ISO 8601 with a resolution of one
  second, \<open>YYYY-MM-DDTHH:mm:ssZ\<close>. The model renders the clock for a machine whose local
  time is UTC, for years of four digits. What matters below is the resolution: the
  milliseconds of the clock are dropped.
\<close>

definition digit :: "int \<Rightarrow> char" where
  "digit d = ''0123456789'' ! nat (d mod 10)"

definition pad2 :: "int \<Rightarrow> string" where
  "pad2 n = [digit (n div 10), digit n]"

definition pad4 :: "int \<Rightarrow> string" where
  "pad4 n = [digit (n div 1000), digit (n div 100), digit (n div 10), digit n]"

text \<open>The civil date (year, month, day) of a day number counted from 1970-01-01.\<close>

definition civil_from_days :: "int \<Rightarrow> int \<times> int \<times> int" where
  "civil_from_days days =
     (let z = days + 719468;
          era = z div 146097;
          doe = z mod 146097;
          yoe = (doe - doe div 1460 + doe div 36524 - doe div 146096) div 365;
          doy = doe - (365 * yoe + yoe div 4 - yoe div 100);
          mp = (5 * doy + 2) div 153;
          d = doy - (153 * mp + 2) div 5 + 1;
          m = (if mp < 10 then mp + 3 else mp - 9);
          y = yoe + era * 400 + (if m \<le> 2 then 1 else 0)
      in (y, m, d))"

definition format_seconds :: "int \<Rightarrow> string" where
  "format_seconds secs =
     (case civil_from_days (secs div 86400) of (y, m, d) \<Rightarrow>
        pad4 y @ ''-'' @ pad2 m @ ''-'' @ pad2 d @ ''T''
        @ pad2 (secs mod 86400 div 3600) @ '':'' @ pad2 (secs mod 3600 div 60)
        @ '':'' @ pad2 (secs mod 60) @ ''+00:00'')"

definition moment_format :: "int \<Rightarrow> string" where
  "moment_format ms = format_seconds (ms div 1000)"

definition default_createFileName :: namefn where
  "default_createFileName n t = moment_format t"

section \<open>Events, the engine and its environment\<close>

datatype level = Info | Error

text \<open>The \<open>reason\<close> given to \<open>rotate\<close>: a string from the tick, an object \<open>{reason: ...}\<close> from \<open>flush\<close>.\<close>

datatype reason = RStr string | RObj string

datatype errno = ENOENT | EACCES | EOTHER string

text \<open>
  An emitted event: the channel (\<open>info\<close> or \<open>error\<close>) and the payload object, whose fields
  other than \<open>message\<close> are optional. The exit code of a child process is a number, or
  \<open>null\<close> (here \<open>None\<close>) when a signal ended it.
\<close>

record event =
  level :: level
  message :: string
  ev_source :: "string option"
  ev_destination :: "string option"
  ev_reason :: "reason option"
  ev_error :: "errno option"
  ev_code :: "int option option"

definition ev :: "level \<Rightarrow> string \<Rightarrow> event" where
  "ev l m = \<lparr>level = l, message = m, ev_source = None, ev_destination = None,
             ev_reason = None, ev_error = None, ev_code = None\<rparr>"

text \<open>
  What can be thrown: the \<open>Error\<close> of a failed validation, a failure of \<open>mkdirp.sync\<close>, the
  \<open>TypeError\<close> of a file-system call that lacks its callback, the error that \<open>emit\<close> raises
  for an \<open>error\<close> event nobody listens to, and the error of a failed \<open>unlink\<close> rethrown by
  the default callback.
\<close>

datatype exn = Exn string | FsExn string | TypeError | Unhandled event | Rethrown errno

text \<open>
  The fields of \<open>this\<close>. \<open>stream\<close> and \<open>empty\<close> are \<open>undefined\<close> (here \<open>None\<close>) until they are
  first assigned; \<open>source\<close>, \<open>destination\<close> and \<open>created\<close> are assigned by \<open>createStream\<close>
  before anything reads them. \<open>error_listeners\<close> is the part of the inherited EventEmitter
  that the engine depends on: the number of listeners attached to the \<open>error\<close> channel.
\<close>

record engine =
  localPrefix :: string
  maxFileSize :: jsnum
  maxFileAge :: jsnum
  s3Prefix :: string
  createFileName :: namefn
  source :: string
  destination :: string
  created :: int
  stream :: "nat option"
  empty :: "bool option"
  error_listeners :: nat

text \<open>
  What the engine acts on: the clock in milliseconds, the local files with their sizes,
  the write streams that are open (identifier and path), the events emitted (the calls
  of \<open>this.emit\<close>, in order), the child processes spawned, the callbacks queued by
  \<open>setImmediate\<close>, the jobs registered with the scheduler, the directories asked of
  \<open>mkdirp\<close> (and where it throws), and the number of calls made to the name generator.
  Three more fields are the runtime: the major version of Node, the paths on which
  \<open>unlink\<close> fails although the file is there, and the exceptions that have left the code
  of the engine, towards the caller of \<open>flush\<close> or out of a callback of the event loop
  (where Node ends the process).
\<close>

record world =
  now :: int
  files :: "string \<rightharpoonup> nat"
  streams :: "(nat \<times> string) list"
  next_stream :: nat
  events :: "event list"
  spawned :: "(string \<times> string list) list"
  pending :: nat
  jobs :: "string list"
  mkdirs :: "string list"
  mkdirp_fails :: "string \<Rightarrow> bool"
  calls :: nat
  node_major :: nat
  unlink_errors :: "string \<rightharpoonup> errno"
  uncaught :: "exn list"

type_synonym st = "engine \<times> world"

definition throw :: "exn \<Rightarrow> world \<Rightarrow> world" where
  "throw x w = w\<lparr>uncaught := uncaught w @ [x]\<rparr>"

text \<open>
  \<open>this.emit(channel, payload)\<close>, as the EventEmitter of Node does it: an event on the
  \<open>error\<close> channel with no listener attached is thrown instead of being delivered. Every
  emit of the source is the last statement that runs in its method, so the exception is
  recorded and nothing is skipped.
\<close>

definition emit :: "engine \<Rightarrow> event \<Rightarrow> world \<Rightarrow> world" where
  "emit e x w =
     (if level x = Error \<and> error_listeners e = 0
      then throw (Unhandled x) (w\<lparr>events := events w @ [x]\<rparr>)
      else w\<lparr>events := events w @ [x]\<rparr>)"

text \<open>\<open>this.on('error', listener)\<close>, inherited from EventEmitter.\<close>

definition on_error :: "st \<Rightarrow> st" where
  "on_error s = ((fst s)\<lparr>error_listeners := Suc (error_listeners (fst s))\<rparr>, snd s)"

text \<open>\<open>fs.createWriteStream(path, {flags: 'a'})\<close>: a new open stream; the file is created when absent.\<close>

definition createWriteStream :: "string \<Rightarrow> world \<Rightarrow> nat \<times> world" where
  "createWriteStream path w =
     (next_stream w,
      w\<lparr>files := (case files w path of None \<Rightarrow> (files w)(path \<mapsto> 0) | Some n \<Rightarrow> files w),
        streams := streams w @ [(next_stream w, path)],
        next_stream := Suc (next_stream w)\<rparr>)"

definition stream_end :: "nat \<Rightarrow> world \<Rightarrow> world" where
  "stream_end i w = w\<lparr>streams := filter (\<lambda>h. fst h \<noteq> i) (streams w)\<rparr>"

text \<open>
  \<open>fs.unlink(path)\<close>, called with no callback as the source does. From Node 10 on the call
  throws a \<open>TypeError\<close> and removes nothing. Before, the file is removed; when that fails
  (the file is missing, or the path is one on which \<open>unlink\<close> fails) the default callback
  rethrows the error, which nothing catches. Both calls of the source are the last
  statement of their method.
\<close>

definition unlink_failure :: "world \<Rightarrow> string \<Rightarrow> errno option" where
  "unlink_failure w path =
     (case unlink_errors w path of
        Some err \<Rightarrow> Some err
      | None \<Rightarrow> (case files w path of None \<Rightarrow> Some ENOENT | Some n \<Rightarrow> None))"

definition unlink :: "string \<Rightarrow> world \<Rightarrow> world" where
  "unlink path w =
     (if 10 \<le> node_major w then throw TypeError w
      else (case unlink_failure w path of
              Some err \<Rightarrow> throw (Rethrown err) w
            | None \<Rightarrow> w\<lparr>files := (files w)(path := None)\<rparr>))"

definition spawn :: "string \<Rightarrow> string list \<Rightarrow> world \<Rightarrow> world" where
  "spawn cmd args w = w\<lparr>spawned := spawned w @ [(cmd, args)]\<rparr>"

definition fs_stat :: "world \<Rightarrow> string \<Rightarrow> errno + nat" where
  "fs_stat w path = (case files w path of None \<Rightarrow> Inl ENOENT | Some n \<Rightarrow> Inr n)"

section \<open>The methods of RotatingS3Stream\<close>

definition createStream :: "st \<Rightarrow> st" where
  "createStream s =
     (case s of (e, w) \<Rightarrow>
        let fileName = createFileName e (calls w) (now w);
            src = localPrefix e @ ''/'' @ fileName;
            dst = s3Prefix e @ ''/'' @ fileName;
            w1 = w\<lparr>calls := Suc (calls w)\<rparr>;
            w2 = (case stream e of Some i \<Rightarrow> stream_end i w1 | None \<Rightarrow> w1);
            hw = createWriteStream src w2
        in (e\<lparr>source := src, destination := dst, created := now w, stream := Some (fst hw)\<rparr>,
            (snd hw)\<lparr>pending := Suc (pending (snd hw))\<rparr>))"

text \<open>The callback queued by \<open>setImmediate\<close>: it reads \<open>this.source\<close> when it runs.\<close>

definition runImmediate :: "st \<Rightarrow> st" where
  "runImmediate s =
     (case s of (e, w) \<Rightarrow>
        if pending w = 0 then (e, w)
        else (e, emit e ((ev Info ''Created new write stream'')
                          \<lparr>ev_source := Some (source e), ev_destination := Some (destination e)\<rparr>)
                   (w\<lparr>pending := pending w - 1\<rparr>)))"

text \<open>\<open>rotate(reason)\<close>; the name carries a suffix because the list library has a \<open>rotate\<close>.\<close>

definition rotate_stream :: "reason \<Rightarrow> st \<Rightarrow> st" where
  "rotate_stream r s =
     (case s of (e, w) \<Rightarrow>
        let w1 = emit e ((ev Info ''Rotating stream'')
                         \<lparr>ev_source := Some (source e), ev_destination := Some (destination e),
                          ev_reason := Some r\<rparr>) w;
            src = source e;
            dst = destination e;
            s2 = createStream (e, w1)
        in if empty (fst s2) \<noteq> Some True
           then (fst s2, spawn ''aws'' [''s3'', ''cp'', src, dst] (snd s2))
           else (fst s2,
                 unlink src
                   (emit e ((ev Info ''Rotating empty local stream without S3 sync'')
                            \<lparr>ev_source := Some src\<rparr>) (snd s2))))"



definition awscp_close :: "string \<Rightarrow> string \<Rightarrow> int option \<Rightarrow> st \<Rightarrow> st" where
  "awscp_close src dst c s =
     (case s of (e, w) \<Rightarrow>
        if c \<noteq> Some 0
        then (e, emit e ((ev Error ''AWS S3 cp failed'')
                         \<lparr>ev_source := Some src, ev_destination := Some dst, ev_code := Some c\<rparr>) w)
        else (e, unlink src
                   (emit e ((ev Info ''Rotated and synced stream to s3'')
                            \<lparr>ev_source := Some src, ev_destination := Some dst\<rparr>) w)))"

text \<open>
  The callback that \<open>checkAndRotate\<close> gives to \<open>fs.stat\<close>, applied to the outcome of the
  query: an error, or the size of the file.
\<close>

definition stat_callback :: "errno + nat \<Rightarrow> st \<Rightarrow> st" where
  "stat_callback r s =
     (case s of (e, w) \<Rightarrow>
        (case r of
           Inl err \<Rightarrow>
             (e, emit e ((ev Error ''fs.stat failed'')
                         \<lparr>ev_source := Some (source e), ev_error := Some err\<rparr>) w)
         | Inr sz \<Rightarrow>
             (let ageInSeconds = (now w - created e) div 1000;
                  e1 = e\<lparr>empty := Some (sz = 0)\<rparr>
              in if num_gt (Fin (of_int ageInSeconds)) (maxFileAge e1)
                 then rotate_stream (RStr ''Max file age reached'') (e1, w)
                 else if num_gt (Fin (of_nat sz)) (maxFileSize e1)
                 then rotate_stream (RStr ''Max file size reached'') (e1, w)
                 else (e1, w))))"

text \<open>A tick whose query is answered from the files as they are.\<close>

definition checkAndRotate :: "st \<Rightarrow> st" where
  "checkAndRotate s = stat_callback (fs_stat (snd s) (source (fst s))) s"

text \<open>
  \<open>write(data)\<close> (\<open>write\<close> is a keyword of Isabelle, hence the suffix): the bytes go to the
  file that the current stream was opened on.
\<close>

definition write_data :: "string \<Rightarrow> st \<Rightarrow> st" where
  "write_data data s =
     (case s of (e, w) \<Rightarrow>
        (case stream e of
           None \<Rightarrow> (e, w)
         | Some i \<Rightarrow>
             (case map_of (streams w) i of
                None \<Rightarrow> (e, w)
              | Some path \<Rightarrow>
                  (case files w path of
                     None \<Rightarrow> (e, w)
                   | Some n \<Rightarrow> (e, w\<lparr>files := (files w)(path \<mapsto> n + length data)\<rparr>)))))"

definition flush :: "st \<Rightarrow> st" where
  "flush s = rotate_stream (RObj ''External flush request'') s"

text \<open>The options object; a field that is not given reads as \<open>undefined\<close>.\<close>

record opts =
  opts_localPrefix :: jsval
  opts_s3Prefix :: jsval
  opts_maxFileSize :: jsval
  opts_maxFileAge :: jsval
  opts_createFileName :: jsval

definition constructor :: "opts \<Rightarrow> world \<Rightarrow> (exn + engine) \<times> world" where
  "constructor opts w =
     (if typeof (opts_localPrefix opts) \<noteq> ''string''
      then (Inl (Exn ''localPrefix must be a string''), w)
      else if typeof (opts_maxFileSize opts) \<noteq> ''number'' \<or> \<not> gt0 (opts_maxFileSize opts)
      then (Inl (Exn ''maxFileSize must be a number greater than 0''), w)
      else if typeof (opts_maxFileAge opts) \<noteq> ''number'' \<or> \<not> gt0 (opts_maxFileAge opts)
      then (Inl (Exn ''maxFileAge must be a number greater than 0''), w)
      else if typeof (opts_s3Prefix opts) \<noteq> ''string''
              \<or> indexOf (the_str (opts_s3Prefix opts)) ''s3://'' = - 1
      then (Inl (Exn ''s3Prefix must be a valid s3 prefix in the form: s3://<bucket><prefix>''), w)
      else if typeof (opts_createFileName opts) \<noteq> ''undefined''
              \<and> typeof (opts_createFileName opts) \<noteq> ''function''
      then (Inl (Exn ''createFileName must be a function''), w)
      else
        let e = \<lparr>localPrefix = the_str (opts_localPrefix opts),
                 maxFileSize = the_num (opts_maxFileSize opts),
                 maxFileAge = the_num (opts_maxFileAge opts),
                 s3Prefix = the_str (opts_s3Prefix opts),
                 createFileName =
                   (case opts_createFileName opts of JFun f \<Rightarrow> f | _ \<Rightarrow> default_createFileName),
                 source = [], destination = [], created = 0, stream = None, empty = None,
                 error_listeners = 0\<rparr>;
            w1 = w\<lparr>mkdirs := mkdirs w @ [localPrefix e]\<rparr>
        in if mkdirp_fails w (localPrefix e) then (Inl (FsExn (localPrefix e)), w1)
           else let s = createStream (e, w1)
                in (Inr (fst s), (snd s)\<lparr>jobs := jobs (snd s) @ [''* * * * *'']\<rparr>))"

section \<open>What is observed of a run\<close>

text \<open>
  Only the event that announces a rotation carries a reason, so the reasons found in the
  events are the rotations performed, in order.
\<close>

definition rotation_reasons :: "world \<Rightarrow> reason list" where
  "rotation_reasons w = List.map_filter ev_reason (events w)"


text \<open>The age that the callback of the tick computes.\<close>

definition ageInSeconds :: "engine \<Rightarrow> world \<Rightarrow> int" where
  "ageInSeconds e w = (now w - created e) div 1000"

text \<open>The command line that uploads one file.\<close>

definition upload :: "string \<Rightarrow> string \<Rightarrow> string \<times> string list" where
  "upload src dst = (''aws'', [''s3'', ''cp'', src, dst])"

section \<open>The event loop\<close>


text \<open>The same engine on another major version of Node.\<close>

definition on_node :: "nat \<Rightarrow> st \<Rightarrow> st" where
  "on_node v s = (fst s, (snd s)\<lparr>node_major := v\<rparr>)"







section \<open>The options that the constructor refuses, in words\<close>


section \<open>A running engine, for the concrete cases\<close>

text \<open>A custom name generator that numbers the files: \<open>log0\<close>, \<open>log1\<close>, ...\<close>

definition numbered :: namefn where
  "numbered n t = ''log'' @ [digit (int n)]"

definition demo_opts :: opts where
  "demo_opts =
     \<lparr>opts_localPrefix = JStr ''/tmp/logs'', opts_s3Prefix = JStr ''s3://bucket/logs'',
      opts_maxFileSize = JNum (Fin 1000), opts_maxFileAge = JNum (Fin 60),
      opts_createFileName = JFun numbered\<rparr>"

text \<open>
  The environment before the engine is constructed, at five seconds on the clock, on
  Node 6.
\<close>

definition boot :: world where
  "boot =
     \<lparr>now = 5000, files = Map.empty, streams = [], next_stream = 0, events = [],
      spawned = [], pending = 0, jobs = [], mkdirs = [], mkdirp_fails = (\<lambda>p. False),
      calls = 0, node_major = 6, unlink_errors = Map.empty, uncaught = []\<rparr>"

text \<open>The engine and the environment that \<open>new RotatingS3Stream(demo_opts)\<close> leaves.\<close>

definition demo_engine :: engine where
  "demo_engine =
     \<lparr>localPrefix = ''/tmp/logs'', maxFileSize = Fin 1000, maxFileAge = Fin 60,
      s3Prefix = ''s3://bucket/logs'', createFileName = numbered,
      source = ''/tmp/logs/log0'', destination = ''s3://bucket/logs/log0'',
      created = 5000, stream = Some 0, empty = None, error_listeners = 0\<rparr>"

definition demo_world :: world where
  "demo_world =
     \<lparr>now = 5000, files = [''/tmp/logs/log0'' \<mapsto> 0], streams = [(0, ''/tmp/logs/log0'')],
      next_stream = 1, events = [], spawned = [], pending = 1, jobs = [''* * * * *''],
      mkdirs = [''/tmp/logs''], mkdirp_fails = (\<lambda>p. False), calls = 1,
      node_major = 6, unlink_errors = Map.empty, uncaught = []\<rparr>"





text \<open>
  Two histories of the numbered engine. In the first, 1500 bytes are written and a tick
  rotates the file for its size. In the second, a tick finds the file empty and young, and
  three bytes are written afterwards.
\<close>

definition after_size_rotation :: st where
  "after_size_rotation =
     checkAndRotate (write_data (replicate 1500 CHR ''a'') (demo_engine, demo_world))"

definition after_empty_check_and_write :: st where
  "after_empty_check_and_write =
     write_data ''abc'' (checkAndRotate (demo_engine, demo_world))"

section \<open>Basic facts about the methods\<close>


lemma emit_listened:
  "0 < error_listeners e \<Longrightarrow> emit e x w = w\<lparr>events := events w @ [x]\<rparr>"
  by (simp add: emit_def)

lemma emit_frame:
  "events (emit e x w) = events w @ [x]" "files (emit e x w) = files w"
  "spawned (emit e x w) = spawned w" "streams (emit e x w) = streams w"
  "calls (emit e x w) = calls w" "now (emit e x w) = now w"
  "next_stream (emit e x w) = next_stream w" "pending (emit e x w) = pending w"
  "node_major (emit e x w) = node_major w" "unlink_errors (emit e x w) = unlink_errors w"
  by (simp_all add: emit_def throw_def)

lemma unlink_frame:
  "events (unlink path w) = events w" "spawned (unlink path w) = spawned w"
  "streams (unlink path w) = streams w" "calls (unlink path w) = calls w"
  "now (unlink path w) = now w" "next_stream (unlink path w) = next_stream w"
  by (simp_all add: unlink_def throw_def split: option.split)



lemma fst_createStream:
  "fst (createStream (e, w)) =
     e\<lparr>source := localPrefix e @ ''/'' @ createFileName e (calls w) (now w),
       destination := s3Prefix e @ ''/'' @ createFileName e (calls w) (now w),
       created := now w, stream := Some (next_stream w)\<rparr>"
  by (simp add: createStream_def createWriteStream_def stream_end_def Let_def split: option.split)

lemma snd_createStream:
  "snd (createStream (e, w)) =
     w\<lparr>calls := Suc (calls w),
       streams := (case stream e of None \<Rightarrow> streams w
                   | Some i \<Rightarrow> filter (\<lambda>h. fst h \<noteq> i) (streams w))
                  @ [(next_stream w, localPrefix e @ ''/'' @ createFileName e (calls w) (now w))],
       files := (case files w (localPrefix e @ ''/'' @ createFileName e (calls w) (now w)) of
                   None \<Rightarrow> (files w)(localPrefix e @ ''/'' @ createFileName e (calls w) (now w) \<mapsto> 0)
                 | Some n \<Rightarrow> files w),
       next_stream := Suc (next_stream w),
       pending := Suc (pending w)\<rparr>"
  by (simp add: createStream_def createWriteStream_def stream_end_def Let_def split: option.split)

lemma fst_rotate_stream:
  "fst (rotate_stream r (e, w)) = fst (createStream (e, w))"
  by (simp add: rotate_stream_def Let_def fst_createStream emit_frame)

lemma events_rotate_stream:
  "events (snd (rotate_stream r (e, w))) =
     events w @
       [\<lparr>level = Info, message = ''Rotating stream'', ev_source = Some (source e),
         ev_destination = Some (destination e), ev_reason = Some r, ev_error = None,
         ev_code = None\<rparr>]
       @ (if empty e = Some True
          then [\<lparr>level = Info, message = ''Rotating empty local stream without S3 sync'',
                 ev_source = Some (source e), ev_destination = None, ev_reason = None,
                 ev_error = None, ev_code = None\<rparr>]
          else [])"
  by (simp add: rotate_stream_def Let_def fst_createStream snd_createStream emit_frame
      unlink_frame ev_def spawn_def)

lemma spawned_rotate_stream:
  "spawned (snd (rotate_stream r (e, w))) =
     spawned w @ (if empty e = Some True then [] else [upload (source e) (destination e)])"
  by (simp add: rotate_stream_def Let_def fst_createStream snd_createStream emit_frame
      unlink_frame spawn_def upload_def)


lemma reasons_rotate_stream:
  "rotation_reasons (snd (rotate_stream r (e, w))) = rotation_reasons w @ [r]"
  by (simp add: rotation_reasons_def events_rotate_stream map_filter_def)

lemma fst_stat_callback:
  "fst (stat_callback r (e, w)) =
     (case r of Inl err \<Rightarrow> e
      | Inr sz \<Rightarrow>
          if num_gt (Fin (of_int (ageInSeconds e w))) (maxFileAge e)
             \<or> num_gt (Fin (of_nat sz)) (maxFileSize e)
          then fst (createStream (e\<lparr>empty := Some (sz = 0)\<rparr>, w))
          else e\<lparr>empty := Some (sz = 0)\<rparr>)"
  by (simp add: stat_callback_def Let_def fst_rotate_stream ageInSeconds_def split: sum.split)


lemma files_rotate_stream:
  "empty e \<noteq> Some True \<Longrightarrow>
   files (snd (rotate_stream r (e, w))) =
     (let new = localPrefix e @ ''/'' @ createFileName e (calls w) (now w)
      in case files w new of None \<Rightarrow> (files w)(new \<mapsto> 0) | Some n \<Rightarrow> files w)"
  by (simp add: rotate_stream_def Let_def fst_createStream snd_createStream emit_frame
      unlink_frame spawn_def split: option.split)









lemmas method_defs = checkAndRotate_def stat_callback_def rotate_stream_def createStream_def
  createWriteStream_def stream_end_def emit_def throw_def ev_def spawn_def unlink_def
  unlink_failure_def fs_stat_def write_data_def flush_def upload_def on_node_def

lemmas demo_defs = demo_engine_def demo_world_def numbered_def digit_def

subsection \<open>The concrete engines are constructed ones\<close>




lemma demo_is_constructed: "constructor demo_opts boot = (Inr demo_engine, demo_world)"
  by (simp add: constructor_def demo_opts_def boot_def demo_engine_def demo_world_def
      createStream_def createWriteStream_def Let_def indexOf_def numbered_def digit_def)

subsection \<open>The checks of the constructor, in words\<close>



subsection \<open>The run of one upload\<close>




subsection \<open>One stream is open\<close>





section \<open>The constructor\<close>




section \<open>The tick\<close>

text \<open>
  The constructor attaches no listener. A failed query then makes \<open>emit\<close> throw out of the
  callback of \<open>fs.stat\<close>: the exception leaves the engine.
\<close>

theorem stat_failure_throws_without_listener:
  "constructor demo_opts boot = (Inr demo_engine, demo_world)
   \<and> error_listeners demo_engine = 0
   \<and> fs_stat (demo_world\<lparr>files := Map.empty\<rparr>) (source demo_engine) = Inl ENOENT
   \<and> uncaught (snd (checkAndRotate (demo_engine, demo_world\<lparr>files := Map.empty\<rparr>))) =
       [Unhandled \<lparr>level = Error, message = ''fs.stat failed'',
                   ev_source = Some ''/tmp/logs/log0'', ev_destination = None,
                   ev_reason = None, ev_error = Some ENOENT, ev_code = None\<rparr>]"
  by (simp add: demo_is_constructed checkAndRotate_def fs_stat_def stat_callback_def
      emit_def throw_def ev_def demo_engine_def demo_world_def)

text \<open>
  C7, as amended. When the query of \<open>checkAndRotate\<close> fails, its callback emits exactly one
  event, on the error channel, with the message \<open>fs.stat failed\<close>, the current source path
  and the error; no rotation occurs and the engine is as it was. When a listener is
  attached to the error channel, nothing is thrown and nothing else changes (the
  scheduled job stays registered), so the next tick finds the engine as if the failed one
  had not been. With a file that is missing the tick is such a failure.
\<close>

theorem stat_failure_reports_and_keeps_state:
  "fst (stat_callback (Inl err) (e, w)) = e
   \<and> events (snd (stat_callback (Inl err) (e, w))) =
       events w @
         [\<lparr>level = Error, message = ''fs.stat failed'', ev_source = Some (source e),
           ev_destination = None, ev_reason = None, ev_error = Some err,
           ev_code = None\<rparr>]
   \<and> rotation_reasons (snd (stat_callback (Inl err) (e, w))) = rotation_reasons w
   \<and> (0 < error_listeners e \<longrightarrow>
        stat_callback (Inl err) (e, w) =
          (e, w\<lparr>events := events w @
                   [\<lparr>level = Error, message = ''fs.stat failed'',
                     ev_source = Some (source e), ev_destination = None,
                     ev_reason = None, ev_error = Some err, ev_code = None\<rparr>]\<rparr>)
        \<and> uncaught (snd (stat_callback (Inl err) (e, w))) = uncaught w
        \<and> stat_callback r (stat_callback (Inl err) (e, w)) =
            stat_callback r
              (e, w\<lparr>events := events w @
                       [\<lparr>level = Error, message = ''fs.stat failed'',
                         ev_source = Some (source e), ev_destination = None,
                         ev_reason = None, ev_error = Some err, ev_code = None\<rparr>]\<rparr>)
        \<and> fst (stat_callback r (stat_callback (Inl err) (e, w))) =
            fst (stat_callback r (e, w)))
   \<and> (files w (source e) = None \<longrightarrow>
        checkAndRotate (e, w) = stat_callback (Inl ENOENT) (e, w))"
proof -
  have eng: "fst (stat_callback (Inl err) (e, w)) = e"
    by (simp add: stat_callback_def)
  have evs: "events (snd (stat_callback (Inl err) (e, w))) =
       events w @
         [\<lparr>level = Error, message = ''fs.stat failed'', ev_source = Some (source e),
           ev_destination = None, ev_reason = None, ev_error = Some err,
           ev_code = None\<rparr>]"
    by (simp add: stat_callback_def emit_frame ev_def)
  have rot: "rotation_reasons (snd (stat_callback (Inl err) (e, w))) = rotation_reasons w"
    by (simp add: rotation_reasons_def evs map_filter_def)
  have listened: "0 < error_listeners e \<longrightarrow>
        stat_callback (Inl err) (e, w) =
          (e, w\<lparr>events := events w @
                   [\<lparr>level = Error, message = ''fs.stat failed'',
                     ev_source = Some (source e), ev_destination = None,
                     ev_reason = None, ev_error = Some err, ev_code = None\<rparr>]\<rparr>)
        \<and> uncaught (snd (stat_callback (Inl err) (e, w))) = uncaught w
        \<and> stat_callback r (stat_callback (Inl err) (e, w)) =
            stat_callback r
              (e, w\<lparr>events := events w @
                       [\<lparr>level = Error, message = ''fs.stat failed'',
                         ev_source = Some (source e), ev_destination = None,
                         ev_reason = None, ev_error = Some err, ev_code = None\<rparr>]\<rparr>)
        \<and> fst (stat_callback r (stat_callback (Inl err) (e, w))) =
            fst (stat_callback r (e, w))"
  proof
    assume l: "0 < error_listeners e"
    have one: "stat_callback (Inl err) (e, w) =
          (e, w\<lparr>events := events w @
                   [\<lparr>level = Error, message = ''fs.stat failed'',
                     ev_source = Some (source e), ev_destination = None,
                     ev_reason = None, ev_error = Some err, ev_code = None\<rparr>]\<rparr>)"
      using l by (simp add: stat_callback_def emit_listened ev_def)
    have two: "fst (stat_callback r (stat_callback (Inl err) (e, w))) =
        fst (stat_callback r (e, w))"
      unfolding one
      by (simp add: fst_stat_callback fst_createStream ageInSeconds_def split: sum.split)
    have three: "uncaught (snd (stat_callback (Inl err) (e, w))) = uncaught w"
      unfolding one by simp
    have four: "stat_callback r (stat_callback (Inl err) (e, w)) =
            stat_callback r
              (e, w\<lparr>events := events w @
                       [\<lparr>level = Error, message = ''fs.stat failed'',
                         ev_source = Some (source e), ev_destination = None,
                         ev_reason = None, ev_error = Some err, ev_code = None\<rparr>]\<rparr>)"
      unfolding one by (rule refl)
    show "stat_callback (Inl err) (e, w) =
          (e, w\<lparr>events := events w @
                   [\<lparr>level = Error, message = ''fs.stat failed'',
                     ev_source = Some (source e), ev_destination = None,
                     ev_reason = None, ev_error = Some err, ev_code = None\<rparr>]\<rparr>)
        \<and> uncaught (snd (stat_callback (Inl err) (e, w))) = uncaught w
        \<and> stat_callback r (stat_callback (Inl err) (e, w)) =
            stat_callback r
              (e, w\<lparr>events := events w @
                       [\<lparr>level = Error, message = ''fs.stat failed'',
                         ev_source = Some (source e), ev_destination = None,
                         ev_reason = None, ev_error = Some err, ev_code = None\<rparr>]\<rparr>)
        \<and> fst (stat_callback r (stat_callback (Inl err) (e, w))) =
            fst (stat_callback r (e, w))"
      by (rule conjI [OF one conjI [OF three conjI [OF four two]]])
  qed
  have missing: "files w (source e) = None \<longrightarrow>
        checkAndRotate (e, w) = stat_callback (Inl ENOENT) (e, w)"
    by (simp add: checkAndRotate_def fs_stat_def)
  show ?thesis
    by (rule conjI [OF eng conjI [OF evs conjI [OF rot conjI [OF listened missing]]]])
qed

theorem stat_failure_reports_and_keeps_state_witness:
  "0 < error_listeners (fst (on_error (demo_engine, demo_world\<lparr>files := Map.empty\<rparr>)))
   \<and> files (demo_world\<lparr>files := Map.empty\<rparr>) (source demo_engine) = None
   \<and> checkAndRotate (on_error (demo_engine, demo_world\<lparr>files := Map.empty\<rparr>)) =
       (demo_engine\<lparr>error_listeners := 1\<rparr>,
        demo_world
          \<lparr>files := Map.empty,
           events := [\<lparr>level = Error, message = ''fs.stat failed'',
                        ev_source = Some ''/tmp/logs/log0'', ev_destination = None,
                        ev_reason = None, ev_error = Some ENOENT, ev_code = None\<rparr>]\<rparr>)
   \<and> uncaught (snd (checkAndRotate
                       (on_error (demo_engine, demo_world\<lparr>files := Map.empty\<rparr>)))) = []"
  using stat_failure_reports_and_keeps_state
    [of ENOENT "demo_engine\<lparr>error_listeners := 1\<rparr>" "demo_world\<lparr>files := Map.empty\<rparr>"
      "Inl ENOENT"]
  by (simp add: on_error_def demo_world_def demo_engine_def)



text \<open>
  C4. On a tick whose query succeeds the decision is taken in a fixed order: an age above
  \<open>maxFileAge\<close> rotates once, for age, whatever the size; otherwise a size above
  \<open>maxFileSize\<close> rotates once, for size; otherwise nothing happens but the refreshed flag.
\<close>

theorem tick_decision_first_match:
  "(num_gt (Fin (of_int (ageInSeconds e w))) (maxFileAge e) \<longrightarrow>
      stat_callback (Inr sz) (e, w) =
        rotate_stream (RStr ''Max file age reached'') (e\<lparr>empty := Some (sz = 0)\<rparr>, w)
      \<and> rotation_reasons (snd (stat_callback (Inr sz) (e, w))) =
          rotation_reasons w @ [RStr ''Max file age reached''])
   \<and> (\<not> num_gt (Fin (of_int (ageInSeconds e w))) (maxFileAge e)
      \<and> num_gt (Fin (of_nat sz)) (maxFileSize e) \<longrightarrow>
      stat_callback (Inr sz) (e, w) =
        rotate_stream (RStr ''Max file size reached'') (e\<lparr>empty := Some (sz = 0)\<rparr>, w)
      \<and> rotation_reasons (snd (stat_callback (Inr sz) (e, w))) =
          rotation_reasons w @ [RStr ''Max file size reached''])
   \<and> (\<not> num_gt (Fin (of_int (ageInSeconds e w))) (maxFileAge e)
      \<and> \<not> num_gt (Fin (of_nat sz)) (maxFileSize e) \<longrightarrow>
      stat_callback (Inr sz) (e, w) = (e\<lparr>empty := Some (sz = 0)\<rparr>, w))"
  by (simp add: stat_callback_def Let_def ageInSeconds_def reasons_rotate_stream)

theorem tick_decision_first_match_witness:
  "rotation_reasons (snd (stat_callback (Inr 2000) (demo_engine, demo_world\<lparr>now := 70000\<rparr>))) =
     [RStr ''Max file age reached'']
   \<and> rotation_reasons (snd (stat_callback (Inr 2000) (demo_engine, demo_world))) =
     [RStr ''Max file size reached'']
   \<and> stat_callback (Inr 10) (demo_engine, demo_world\<lparr>now := 9000\<rparr>) =
     (demo_engine\<lparr>empty := Some False\<rparr>, demo_world\<lparr>now := 9000\<rparr>)"
  using tick_decision_first_match [of demo_engine "demo_world\<lparr>now := 70000\<rparr>" 2000]
    tick_decision_first_match [of demo_engine demo_world 2000]
    tick_decision_first_match [of demo_engine "demo_world\<lparr>now := 9000\<rparr>" 10]
  by (simp add: demo_engine_def demo_world_def ageInSeconds_def events_rotate_stream
      rotation_reasons_def map_filter_def)

section \<open>Rotation and the emptiness flag\<close>

text \<open>
  C10. The flag that \<open>rotate\<close> consults is the one recorded by the last successful size
  check: a successful check sets it to whether the size was 0, nothing else assigns it
  (it is unset after construction), and \<open>rotate\<close> uploads unless the flag is true, whatever
  the size of the file is. So a \<open>flush\<close> with the flag unset uploads a file of size 0,
  emits no notice of a skip and leaves the file in place.
\<close>

theorem emptiness_flag_is_last_check:
  "empty (fst (stat_callback (Inr sz) (e, w))) = Some (sz = 0)
   \<and> empty (fst (stat_callback (Inl err) (e, w))) = empty e
   \<and> empty (fst (rotate_stream r (e, w))) = empty e
   \<and> empty (fst (createStream (e, w))) = empty e
   \<and> empty (fst (write_data d (e, w))) = empty e
   \<and> empty (fst (awscp_close src dst c (e, w))) = empty e
   \<and> empty (fst (runImmediate (e, w))) = empty e
   \<and> spawned (snd (rotate_stream r (e, w))) =
       spawned w @ (if empty e = Some True then [] else [upload (source e) (destination e)])
   \<and> (constructor opts w = (Inr e', w') \<longrightarrow> empty e' = None)
   \<and> (empty e = None \<and> files w (source e) = Some 0 \<longrightarrow>
        spawned (snd (flush (e, w))) = spawned w @ [upload (source e) (destination e)]
        \<and> files (snd (flush (e, w))) (source e) = Some 0
        \<and> events (snd (flush (e, w))) =
            events w @
              [\<lparr>level = Info, message = ''Rotating stream'', ev_source = Some (source e),
                ev_destination = Some (destination e),
                ev_reason = Some (RObj ''External flush request''), ev_error = None,
                ev_code = None\<rparr>])"
proof -
  have a: "empty (fst (stat_callback (Inr sz) (e, w))) = Some (sz = 0)
   \<and> empty (fst (stat_callback (Inl err) (e, w))) = empty e"
    by (simp add: fst_stat_callback fst_createStream)
  have b: "empty (fst (rotate_stream r (e, w))) = empty e
   \<and> empty (fst (createStream (e, w))) = empty e"
    by (simp add: fst_rotate_stream fst_createStream)
  have c: "empty (fst (write_data d (e, w))) = empty e
   \<and> empty (fst (awscp_close src dst c (e, w))) = empty e
   \<and> empty (fst (runImmediate (e, w))) = empty e"
    by (simp add: write_data_def awscp_close_def runImmediate_def split: option.split)
  have d: "constructor opts w = (Inr e', w') \<longrightarrow> empty e' = None"
    by (auto simp: constructor_def Let_def fst_createStream split: if_splits)
  have f: "empty e = None \<and> files w (source e) = Some 0 \<longrightarrow>
        spawned (snd (flush (e, w))) = spawned w @ [upload (source e) (destination e)]
        \<and> files (snd (flush (e, w))) (source e) = Some 0
        \<and> events (snd (flush (e, w))) =
            events w @
              [\<lparr>level = Info, message = ''Rotating stream'', ev_source = Some (source e),
                ev_destination = Some (destination e),
                ev_reason = Some (RObj ''External flush request''), ev_error = None,
                ev_code = None\<rparr>]"
    by (simp add: flush_def spawned_rotate_stream files_rotate_stream events_rotate_stream
        Let_def split: option.split)
  from a b c d f spawned_rotate_stream [of r e w] show ?thesis by blast
qed

theorem emptiness_flag_is_last_check_witness:
  "constructor demo_opts boot = (Inr demo_engine, demo_world)
   \<and> empty demo_engine = None
   \<and> files demo_world (source demo_engine) = Some 0
   \<and> spawned (snd (flush (demo_engine, demo_world))) =
       [upload ''/tmp/logs/log0'' ''s3://bucket/logs/log0'']
   \<and> files (snd (flush (demo_engine, demo_world))) ''/tmp/logs/log0'' = Some 0"
proof -
  have h: "empty demo_engine = None \<and> files demo_world (source demo_engine) = Some 0"
    by (simp add: demo_engine_def demo_world_def)
  have l: "source demo_engine = ''/tmp/logs/log0''"
    "destination demo_engine = ''s3://bucket/logs/log0''" "spawned demo_world = []"
    by (simp_all add: demo_engine_def demo_world_def)
  show ?thesis
    using h demo_is_constructed
      emptiness_flag_is_last_check [of 0 demo_engine demo_world ENOENT
        "RObj ''External flush request''" "[]" "[]" "[]" None demo_opts demo_engine demo_world]
    by (simp add: l)
qed

text \<open>
  C1 says that a rotation whose superseded file is empty dispatches no upload, emits the
  notice of the skip and deletes the file. The code does so only when the flag is true.
  After a rotation for size the flag still says "not empty"; a \<open>flush\<close> then rotates the
  new file, which has size 0, and an upload is dispatched for it: the only event is the
  announcement of the rotation, and the file is not deleted.
\<close>

theorem flush_uploads_empty_file_on_stale_flag:
  "source (fst after_size_rotation) = ''/tmp/logs/log1''
   \<and> empty (fst after_size_rotation) = Some False
   \<and> files (snd after_size_rotation) ''/tmp/logs/log1'' = Some 0
   \<and> spawned (snd (flush after_size_rotation)) =
       spawned (snd after_size_rotation)
         @ [upload ''/tmp/logs/log1'' ''s3://bucket/logs/log1'']
   \<and> files (snd (flush after_size_rotation)) ''/tmp/logs/log1'' = Some 0
   \<and> events (snd (flush after_size_rotation)) =
       events (snd after_size_rotation)
         @ [\<lparr>level = Info, message = ''Rotating stream'',
              ev_source = Some ''/tmp/logs/log1'',
              ev_destination = Some ''s3://bucket/logs/log1'',
              ev_reason = Some (RObj ''External flush request''), ev_error = None,
              ev_code = None\<rparr>]"
  by (simp add: after_size_rotation_def method_defs demo_defs Let_def)

text \<open>
  C2 says that a rotation whose superseded file is not empty dispatches exactly one upload,
  with the source and the destination captured before the swap. The code does so only
  when the flag is not true. After a tick that found the file empty the flag says
  "empty"; three bytes are written, and a \<open>flush\<close> then rotates a file of size 3 without
  any upload, on every version of Node. Before Node 10 the unsent file is deleted as
  well; from Node 10 on the \<open>unlink\<close> throws and the file stays, still not uploaded.
\<close>

theorem flush_deletes_unsent_file_on_stale_flag:
  "source (fst after_empty_check_and_write) = ''/tmp/logs/log0''
   \<and> empty (fst after_empty_check_and_write) = Some True
   \<and> files (snd after_empty_check_and_write) ''/tmp/logs/log0'' = Some 3
   \<and> spawned (snd after_empty_check_and_write) = []
   \<and> spawned (snd (flush after_empty_check_and_write)) = []
   \<and> spawned (snd (flush (on_node 22 after_empty_check_and_write))) = []
   \<and> node_major (snd after_empty_check_and_write) = 6
   \<and> files (snd (flush after_empty_check_and_write)) ''/tmp/logs/log0'' = None
   \<and> files (snd (flush (on_node 22 after_empty_check_and_write))) ''/tmp/logs/log0'' = Some 3
   \<and> uncaught (snd (flush (on_node 22 after_empty_check_and_write))) = [TypeError]"
  by (simp add: after_empty_check_and_write_def method_defs demo_defs Let_def)

section \<open>The new file of a rotation\<close>







section \<open>The end of an upload\<close>




end
